theory Spec2Isabelle
  imports Main
begin

section \<open>Python values, exceptions and generators\<close>

text \<open>
  The connector is Python. A \<open>str\<close> is modelled as a \<open>string\<close>, one \<open>char\<close> per
  code point (the code points below 256); \<open>None\<close> is the \<open>None\<close> of an option type.
  An exception is a value: a function that can raise returns \<open>py_error + 'a\<close>, with
  \<open>Inl\<close> for the exception raised.
\<close>

datatype py_error =
    AttributeError string
  | InvalidDremioConnectorException string
  | DriverError string

text \<open>\<open>str(exc)\<close>, as the f-string of the warning renders an exception: its message.\<close>

fun exc_str :: "py_error \<Rightarrow> string" where
  "exc_str (AttributeError msg) = msg"
| "exc_str (InvalidDremioConnectorException msg) = msg"
| "exc_str (DriverError msg) = msg"

text \<open>
  A generator run to its end: the values it yielded, in order, and the exception that
  ended it, if one did.
\<close>

datatype 'a generated = Generated (yielded: "'a list") (raised: "py_error option")

section \<open>String operations of the Python library\<close>

text \<open>\<open>s.startswith(p)\<close>.\<close>

definition startswith :: "string \<Rightarrow> string \<Rightarrow> bool" where
  "startswith s p = (take (length p) s = p)"

text \<open>
  \<open>str.isspace\<close> on one character: the white space among the code points below 256
  (tab to carriage return, the four separators 28 to 31, space, NEL and the no-break
  space).
\<close>

definition isspace :: "char \<Rightarrow> bool" where
  "isspace c =
     (let n = (of_char c :: nat)
      in (9 \<le> n \<and> n \<le> 13) \<or> (28 \<le> n \<and> n \<le> 32) \<or> n = 133 \<or> n = 160)"

text \<open>\<open>s.strip()\<close>: white space removed at both ends.\<close>

definition strip :: "string \<Rightarrow> string" where
  "strip s = rev (dropWhile isspace (rev (dropWhile isspace s)))"

section \<open>The namespace translation\<close>

text \<open>
  \<open>_remove_database_from_schema_name\<close>. The first argument is \<open>self.database\<close>.
  The condition of the source is
  \<^verbatim>\<open>not schema_name.startswith(self.database) or schema_name is None or schema_name == self.database\<close>,
  evaluated left to right: \<open>startswith\<close> is called first, so a \<open>None\<close> schema name
  raises AttributeError there, and the test \<open>schema_name is None\<close> that follows is
  never true when it is reached. The slice \<open>schema_name[len(self.database) + 1:]\<close> is
  \<open>drop\<close>.
\<close>

definition remove_database_from_schema_name ::
  "string option \<Rightarrow> string option \<Rightarrow> py_error + string option" where
  "remove_database_from_schema_name database schema_name =
     (case database of
        None \<Rightarrow> Inr schema_name
      | Some d \<Rightarrow>
          (case schema_name of
             None \<Rightarrow> Inl (AttributeError ''NoneType object has no attribute startswith'')
           | Some s \<Rightarrow>
               if \<not> startswith s d then Inr (Some s)
               else if s = d then Inr (Some s)
               else Inr (Some (drop (length d + 1) s))))"

text \<open>\<open>_add_database_to_schema_name\<close>; it raises nothing.\<close>

definition add_database_to_schema_name ::
  "string option \<Rightarrow> string option \<Rightarrow> string option" where
  "add_database_to_schema_name database schema_name =
     (case database of
        None \<Rightarrow> schema_name
      | Some d \<Rightarrow>
          (case schema_name of
             None \<Rightarrow> Some d
           | Some s \<Rightarrow> if strip s = [] then Some d else Some (d @ ''.'' @ s)))"

section \<open>The connection URL\<close>

text \<open>
  The values \<open>_get_option_or_else\<close> returns: a string of the option map, or a default
  (\<open>None\<close>, \<open>False\<close>, \<open>True\<close>). \<open>py_str\<close> is what an f-string writes for one.
\<close>

datatype py_value = Str string | Bool bool | NoneValue

fun py_str :: "py_value \<Rightarrow> string" where
  "py_str (Str s) = s"
| "py_str (Bool b) = (if b then ''True'' else ''False'')"
| "py_str NoneValue = ''None''"

text \<open>\<open>sep.join(items)\<close>.\<close>

fun join :: "string \<Rightarrow> string list \<Rightarrow> string" where
  "join sep [] = []"
| "join sep [x] = x"
| "join sep (x # y # ys) = x @ sep @ join sep (y # ys)"

text \<open>
  \<open>connection.connectionOptions.root\<close>, a dict from option names to strings, as an
  association list: \<open>map_of\<close> is \<open>root.get\<close> and \<open>map fst\<close> lists the keys.
\<close>

type_synonym connection_options = "(string \<times> string) list"

text \<open>
  \<open>_get_option_or_else(option_name, default, expected)\<close>: \<open>not value\<close> holds for a
  missing key (\<open>get\<close> gives \<open>None\<close>) and for the empty string.
\<close>

definition get_option_or_else ::
  "connection_options \<Rightarrow> string \<Rightarrow> py_value \<Rightarrow> bool \<Rightarrow> py_error + py_value" where
  "get_option_or_else root option_name default_value expected =
     (case map_of root option_name of
        Some (c # cs) \<Rightarrow> Inr (Str (c # cs))
      | _ \<Rightarrow>
          if expected
          then Inl (InvalidDremioConnectorException (''Missing connection option: '' @ option_name))
          else Inr default_value)"

text \<open>
  The comprehension \<^verbatim>\<open>[f'{k}={_get_option_or_else(k)}' for k in not_handled_options]\<close>,
  over the keys in the order the set iterates them.
\<close>

fun render_not_handled :: "connection_options \<Rightarrow> string list \<Rightarrow> py_error + string list" where
  "render_not_handled root [] = Inr []"
| "render_not_handled root (k # ks) =
     (case get_option_or_else root k NoneValue False of
        Inl exc \<Rightarrow> Inl exc
      | Inr v \<Rightarrow>
          (case render_not_handled root ks of
             Inl exc \<Rightarrow> Inl exc
           | Inr rendered \<Rightarrow> Inr ((k @ ''='' @ py_str v) # rendered)))"

text \<open>The keys \<open>get_connection_url\<close> reads itself; every other key is passed through.\<close>

definition handled_options :: "string list" where
  "handled_options =
     [''username'', ''password'', ''hostPort'', ''UseEncryption'',
      ''disableCertificateVerification'']"

text \<open>
  \<open>get_connection_url\<close>. \<open>not_handled_options\<close> is a Python set, and the order in
  which a set of strings is iterated is the interpreter's: \<open>set_iter\<close> stands for it,
  taking the elements to the list the loop sees.
\<close>

definition get_connection_url ::
  "(string list \<Rightarrow> string list) \<Rightarrow> connection_options \<Rightarrow> py_error + string" where
  "get_connection_url set_iter root =
     (let scheme_value = ''dremio+flight'' in
      case get_option_or_else root ''username'' NoneValue True of
        Inl exc \<Rightarrow> Inl exc
      | Inr username \<Rightarrow>
      case get_option_or_else root ''password'' NoneValue True of
        Inl exc \<Rightarrow> Inl exc
      | Inr password \<Rightarrow>
      case get_option_or_else root ''hostPort'' NoneValue True of
        Inl exc \<Rightarrow> Inl exc
      | Inr host_port \<Rightarrow>
      case get_option_or_else root ''UseEncryption'' (Bool False) False of
        Inl exc \<Rightarrow> Inl exc
      | Inr use_encryption \<Rightarrow>
      case get_option_or_else root ''disableCertificateVerification'' (Bool True) False of
        Inl exc \<Rightarrow> Inl exc
      | Inr disable_certificate_verification \<Rightarrow>
      (let not_handled_options =
             set_iter (filter (\<lambda>k. k \<notin> set handled_options) (map fst root))
       in case render_not_handled root not_handled_options of
            Inl exc \<Rightarrow> Inl exc
          | Inr rendered \<Rightarrow>
              (let additional_options =
                     join ''&''
                       ([''UseEncryption='' @ py_str use_encryption,
                         ''disableCertificateVerification='' @
                           py_str disable_certificate_verification] @ rendered);
                   url = scheme_value @ ''://'';
                   url = url @ py_str username @ '':'' @ py_str password;
                   url = url @ ''@'';
                   url = url @ py_str host_port;
                   url = url @ ''/?'';
                   url = url @ additional_options
               in Inr url)))"

text \<open>
  What is known of the order of a set: each element comes once, whatever the order.
\<close>

definition set_iteration :: "(string list \<Rightarrow> string list) \<Rightarrow> bool" where
  "set_iteration set_iter =
     (\<forall>ks. set (set_iter ks) = set ks \<and> distinct (set_iter ks))"

text \<open>
  The three options read with \<open>expected=True\<close>, in the order the source reads them,
  and the test \<open>not value\<close> of \<open>_get_option_or_else\<close>: the key is absent, or its value
  is the empty string.
\<close>

definition required_options :: "string list" where
  "required_options = [''username'', ''password'', ''hostPort'']"

definition option_missing :: "connection_options \<Rightarrow> string \<Rightarrow> bool" where
  "option_missing root option_name =
     (case map_of root option_name of Some (c # cs) \<Rightarrow> False | _ \<Rightarrow> True)"

section \<open>The engine's namespace catalog\<close>

text \<open>
  SQL's \<open>LIKE\<close>: in the pattern \<open>%\<close> stands for any run of characters and \<open>_\<close> for
  any one character; every other character stands for itself.
\<close>

fun sql_like :: "string \<Rightarrow> string \<Rightarrow> bool" where
  "sql_like [] [] = True"
| "sql_like (c # cs) [] = False"
| "sql_like [] (p # ps) = (p = CHR ''%'' \<and> sql_like [] ps)"
| "sql_like (c # cs) (p # ps) =
     (if p = CHR ''%'' then sql_like (c # cs) ps \<or> sql_like cs (p # ps)
      else (p = CHR ''_'' \<or> p = c) \<and> sql_like cs ps)"

text \<open>
  The two queries the connector sends. \<open>DREMIO_GET_SCHEMAS d\<close> is
  \<open>DREMIO_GET_SCHEMAS.format(database_name=d)\<close>.
\<close>

datatype query = DREMIO_GET_DATABASES | DREMIO_GET_SCHEMAS string

text \<open>
  The \<open>WHERE\<close> clause of \<open>DREMIO_GET_DATABASES\<close>:
  \<^verbatim>\<open>SCHEMA_NAME NOT LIKE '%.%' AND NOT STARTS_WITH(SCHEMA_NAME, '@') AND NOT STARTS_WITH(SCHEMA_NAME, '$')\<close>.
\<close>

definition DREMIO_GET_DATABASES_where :: "string \<Rightarrow> bool" where
  "DREMIO_GET_DATABASES_where SCHEMA_NAME =
     (\<not> sql_like SCHEMA_NAME ''%.%'' \<and> \<not> startswith SCHEMA_NAME ''@'' \<and>
      \<not> startswith SCHEMA_NAME ''$'')"

text \<open>
  The \<open>WHERE\<close> clause of \<open>DREMIO_GET_SCHEMAS\<close>:
  \<^verbatim>\<open>SCHEMA_NAME LIKE '{database_name}.%'\<close>. The database name is pasted into the
  pattern, so a \<open>%\<close> or \<open>_\<close> in it is a wildcard.
\<close>

definition DREMIO_GET_SCHEMAS_where :: "string \<Rightarrow> string \<Rightarrow> bool" where
  "DREMIO_GET_SCHEMAS_where database_name SCHEMA_NAME =
     sql_like SCHEMA_NAME (database_name @ ''.%'')"

text \<open>
  The engine answering the two queries over the \<open>SCHEMA_NAME\<close> column of
  \<open>INFORMATION_SCHEMA.SCHEMATA\<close>, row by row and without failing. The connector
  itself only sees a function from the query to the rows (\<open>_execute_database_query\<close>);
  this is the engine the queries are written for.
\<close>

definition dremio_engine :: "string list \<Rightarrow> query \<Rightarrow> string generated" where
  "dremio_engine schemata q =
     (case q of
        DREMIO_GET_DATABASES \<Rightarrow> Generated (filter DREMIO_GET_DATABASES_where schemata) None
      | DREMIO_GET_SCHEMAS database_name \<Rightarrow>
          Generated (filter (DREMIO_GET_SCHEMAS_where database_name) schemata) None)"

section \<open>The connector\<close>

text \<open>
  What the logger receives: \<open>logger.info(msg)\<close>, \<open>logger.warning(msg)\<close>, and
  \<open>logger.error(traceback.format_exc())\<close>, the traceback of the exception being
  handled.
\<close>

datatype log_record = LogInfo string | LogWarning string | LogErrorTraceback py_error

text \<open>
  The fields of the connector the discovery reads and writes. \<open>status_filtered\<close>,
  \<open>status_warnings\<close> and \<open>status_failures\<close> are the lists of the framework's status
  object (\<open>self.status\<close>): \<open>self.status.filter(key, reason)\<close> appends to the first.
  \<open>logger\<close> is what the module's logger has received. The two maps cache driver
  objects per thread.
\<close>

record ('eng, 'h) dremio_connector =
  database :: "string option"
  engine :: "'eng option"
  connection_map :: "(nat \<times> 'h) list"
  inspector_map :: "(nat \<times> 'h) list"
  status_filtered :: "(string \<times> string) list"
  status_warnings :: "(string \<times> string) list"
  status_failures :: "(string \<times> string) list"
  logger :: "log_record list"

text \<open>\<open>self.source_config\<close>, the two fields read.\<close>

record 'pat source_config =
  databaseFilterPattern :: 'pat
  useFqnForFiltering :: bool

text \<open>
  The collaborators, which are not code of the connector: \<open>fqn.build\<close> for a database of
  this service, \<open>filter_by_database\<close>, \<open>inspector.get_schema_names()\<close>, and
  \<open>get_connection\<close>, which hands \<open>get_connection_url\<close> to the framework's builder of
  driver engines. \<open>get_connection\<close> is called with a copy of the service connection
  and not with the database name; its outcome is the environment's, and is given here
  for each database the context is switched to, so that it can differ between
  candidates.
\<close>

record ('pat, 'eng) framework =
  fqn_build :: "string \<Rightarrow> string"
  filter_by_database :: "'pat \<Rightarrow> string \<Rightarrow> bool"
  get_connection :: "string \<Rightarrow> py_error + 'eng"
  inspector_get_schema_names :: "string generated"

definition logger_info :: "string \<Rightarrow> ('eng, 'h) dremio_connector \<Rightarrow> ('eng, 'h) dremio_connector" where
  "logger_info msg self = self\<lparr>logger := logger self @ [LogInfo msg]\<rparr>"

definition logger_warning :: "string \<Rightarrow> ('eng, 'h) dremio_connector \<Rightarrow> ('eng, 'h) dremio_connector" where
  "logger_warning msg self = self\<lparr>logger := logger self @ [LogWarning msg]\<rparr>"

definition logger_error_traceback ::
  "py_error \<Rightarrow> ('eng, 'h) dremio_connector \<Rightarrow> ('eng, 'h) dremio_connector" where
  "logger_error_traceback exc self = self\<lparr>logger := logger self @ [LogErrorTraceback exc]\<rparr>"

definition status_filter ::
  "string \<Rightarrow> string \<Rightarrow> ('eng, 'h) dremio_connector \<Rightarrow> ('eng, 'h) dremio_connector" where
  "status_filter key reason self =
     self\<lparr>status_filtered := status_filtered self @ [(key, reason)]\<rparr>"

text \<open>
  \<open>set_inspector\<close>: the log line, then \<open>get_connection\<close>, which may raise before any
  field is written; then the engine, the database and the two emptied maps.
\<close>

definition set_inspector ::
  "('pat, 'eng) framework \<Rightarrow> string \<Rightarrow> ('eng, 'h) dremio_connector \<Rightarrow>
   (py_error + unit) \<times> ('eng, 'h) dremio_connector" where
  "set_inspector fw database_name self =
     (let self1 = logger_info (''Ingesting from database: '' @ database_name) self
      in case get_connection fw database_name of
           Inl exc \<Rightarrow> (Inl exc, self1)
         | Inr new_engine \<Rightarrow>
             (Inr (),
              self1\<lparr>engine := Some new_engine, database := Some database_name,
                connection_map := [], inspector_map := []\<rparr>))"

definition get_configured_database :: "string option" where
  "get_configured_database = None"

definition get_database_names_raw :: "(query \<Rightarrow> string generated) \<Rightarrow> string generated" where
  "get_database_names_raw execute_database_query = execute_database_query DREMIO_GET_DATABASES"

text \<open>The test of the \<open>if\<close> in the loop of \<open>get_database_names\<close>.\<close>

definition database_filtered_out ::
  "('pat, 'eng) framework \<Rightarrow> 'pat source_config \<Rightarrow> string \<Rightarrow> bool" where
  "database_filtered_out fw source_config new_database =
     filter_by_database fw (databaseFilterPattern source_config)
       (if useFqnForFiltering source_config then fqn_build fw new_database else new_database)"

text \<open>
  The \<open>for\<close> loop of \<open>get_database_names\<close> over the rows of the query: the names it
  yields and the connector after it. A filtered candidate is reported with
  \<open>self.status.filter\<close>; for the others \<open>set_inspector\<close> runs inside \<open>try\<close>, and the
  handler logs the traceback and a warning and goes on. The generator is run to its
  end: what its consumer does between two yields is not part of the model.
\<close>

fun get_database_names_loop ::
  "('pat, 'eng) framework \<Rightarrow> 'pat source_config \<Rightarrow> string list \<Rightarrow>
   ('eng, 'h) dremio_connector \<Rightarrow> string list \<times> ('eng, 'h) dremio_connector" where
  "get_database_names_loop fw source_config [] self = ([], self)"
| "get_database_names_loop fw source_config (new_database # rest) self =
     (let database_fqn = fqn_build fw new_database
      in if database_filtered_out fw source_config new_database
         then get_database_names_loop fw source_config rest
                (status_filter database_fqn ''Database Filtered Out'' self)
         else (case set_inspector fw new_database self of
                 (Inr u, self1) \<Rightarrow>
                   (case get_database_names_loop fw source_config rest self1 of
                      (names, self2) \<Rightarrow> (new_database # names, self2))
               | (Inl exc, self1) \<Rightarrow>
                   get_database_names_loop fw source_config rest
                     (logger_warning
                        (''Error trying to process database '' @ new_database @ '': '' @
                         exc_str exc)
                        (logger_error_traceback exc self1))))"

text \<open>
  \<open>get_database_names\<close>. A configured database (not \<open>None\<close>, not empty) is switched to
  outside any \<open>try\<close>. Otherwise the loop runs over the rows of the query, and an
  exception of the query itself ends the generator after the rows that came.
\<close>

definition get_database_names ::
  "('pat, 'eng) framework \<Rightarrow> 'pat source_config \<Rightarrow> (query \<Rightarrow> string generated) \<Rightarrow>
   ('eng, 'h) dremio_connector \<Rightarrow> string generated \<times> ('eng, 'h) dremio_connector" where
  "get_database_names fw source_config execute_database_query self =
     (case get_configured_database of
        Some (c # cs) \<Rightarrow>
          (case set_inspector fw (c # cs) self of
             (Inl exc, self1) \<Rightarrow> (Generated [] (Some exc), self1)
           | (Inr u, self1) \<Rightarrow> (Generated [c # cs] None, self1))
      | _ \<Rightarrow>
          (case get_database_names_raw execute_database_query of
             Generated rows exc \<Rightarrow>
               (case get_database_names_loop fw source_config rows self of
                  (names, self1) \<Rightarrow> (Generated names exc, self1))))"

text \<open>
  The loop of \<open>get_raw_database_schema_names\<close>: each raw name goes through
  \<open>_remove_database_from_schema_name\<close> and the result is yielded; an exception there
  ends the generator.
\<close>

fun get_raw_database_schema_names_loop ::
  "string option \<Rightarrow> string list \<Rightarrow> py_error option \<Rightarrow> string option generated" where
  "get_raw_database_schema_names_loop db [] exc = Generated [] exc"
| "get_raw_database_schema_names_loop db (schema_name # rest) exc =
     (case remove_database_from_schema_name db (Some schema_name) of
        Inl e \<Rightarrow> Generated [] (Some e)
      | Inr cleaned_schema_name \<Rightarrow>
          (case get_raw_database_schema_names_loop db rest exc of
             Generated names r \<Rightarrow> Generated (cleaned_schema_name # names) r))"

definition get_raw_database_schema_names ::
  "('pat, 'eng) framework \<Rightarrow> (query \<Rightarrow> string generated) \<Rightarrow>
   ('eng, 'h) dremio_connector \<Rightarrow> string option generated" where
  "get_raw_database_schema_names fw execute_database_query self =
     (let schemas =
            (case database self of
               Some d \<Rightarrow> execute_database_query (DREMIO_GET_SCHEMAS d)
             | None \<Rightarrow> inspector_get_schema_names fw)
      in case schemas of
           Generated rows exc \<Rightarrow> get_raw_database_schema_names_loop (database self) rows exc)"

text \<open>
  What one candidate that passes the filter adds to the log: the line of
  \<open>set_inspector\<close>, and, when \<open>get_connection\<close> raises there, the two records of the
  handler.
\<close>

definition switch_log_records :: "('pat, 'eng) framework \<Rightarrow> string \<Rightarrow> log_record list" where
  "switch_log_records fw new_database =
     LogInfo (''Ingesting from database: '' @ new_database) #
     (case get_connection fw new_database of
        Inl exc \<Rightarrow>
          [LogErrorTraceback exc,
           LogWarning (''Error trying to process database '' @ new_database @ '': '' @
             exc_str exc)]
      | Inr new_engine \<Rightarrow> [])"

section \<open>A small service, for the examples\<close>

text \<open>
  A framework whose filter excludes the one name given as its pattern and whose
  driver always connects, a driver that cannot reach \<open>sales\<close>, and a connector as it is
  before the first database is selected.
\<close>

definition service_fqn :: "string \<Rightarrow> string" where
  "service_fqn database_name = ''dremio.'' @ database_name"

definition excluded_by_name :: "string \<Rightarrow> string \<Rightarrow> bool" where
  "excluded_by_name pattern name = (name = pattern)"

definition always_connects :: "string \<Rightarrow> py_error + nat" where
  "always_connects database_name = Inr 0"

definition sales_unreachable :: "string \<Rightarrow> py_error + nat" where
  "sales_unreachable database_name =
     (if database_name = ''sales'' then Inl (DriverError ''unreachable'') else Inr 0)"

definition example_framework :: "(string, nat) framework" where
  "example_framework =
     \<lparr>fqn_build = service_fqn, filter_by_database = excluded_by_name,
      get_connection = always_connects, inspector_get_schema_names = Generated [] None\<rparr>"

definition exclude_hr :: "string source_config" where
  "exclude_hr = \<lparr>databaseFilterPattern = ''hr'', useFqnForFiltering = False\<rparr>"

definition new_connector :: "(nat, nat) dremio_connector" where
  "new_connector =
     \<lparr>database = None, engine = None, connection_map = [], inspector_map = [],
      status_filtered = [], status_warnings = [], status_failures = [], logger = []\<rparr>"

section \<open>Properties of the namespace translation\<close>

lemma startswith_append: "startswith (d @ s) d"
  by (simp add: startswith_def)

lemma all_dropWhile: "(\<forall>x \<in> set (dropWhile P s). P x) \<longleftrightarrow> (\<forall>c \<in> set s. P c)"
  by (induction s) auto

lemma strip_blank: "strip s = [] \<longleftrightarrow> (\<forall>c \<in> set s. isspace c)"
  by (simp add: strip_def dropWhile_eq_Nil_conv all_dropWhile)

lemma isspace_space: "isspace (CHR '' '')"
  by (simp add: isspace_def)

lemma not_isspace_p: "\<not> isspace (CHR ''p'')"
  by (simp add: isspace_def)

text \<open>
  C1 (as the claim states it, refuted): the catalog name \<open>'' ''\<close> is not empty, yet
  adding the database \<open>sales\<close> and stripping it again gives \<open>sales\<close>: a name that is
  blank after trimming is the root-of-database case of \<open>_add_database_to_schema_name\<close>.
\<close>

theorem roundtrip_blank_counterexample:
  "'' '' \<noteq> [] \<and>
   remove_database_from_schema_name (Some ''sales'')
     (add_database_to_schema_name (Some ''sales'') (Some '' '')) = Inr (Some ''sales'') \<and>
   remove_database_from_schema_name (Some ''sales'')
     (add_database_to_schema_name (Some ''sales'') (Some '' '')) \<noteq> Inr (Some '' '')"
  by (simp add: remove_database_from_schema_name_def add_database_to_schema_name_def
      strip_blank isspace_space startswith_def)

text \<open>
  C1 (amended): for every selected database \<open>d\<close> and every catalog schema name \<open>s\<close>
  that is not blank (not empty after trimming white space), stripping the prefix from
  the prefixed name returns \<open>s\<close>, and raises nothing.
\<close>

theorem roundtrip_strip_add:
  assumes "strip s \<noteq> []"
  shows "remove_database_from_schema_name (Some d)
           (add_database_to_schema_name (Some d) (Some s)) = Inr (Some s)"
proof -
  have added: "add_database_to_schema_name (Some d) (Some s) = Some (d @ ''.'' @ s)"
    using assms by (simp add: add_database_to_schema_name_def)
  have longer: "d @ ''.'' @ s \<noteq> d"
    by simp
  have sliced: "drop (length d + 1) (d @ ''.'' @ s) = s"
    by simp
  show ?thesis
    unfolding added remove_database_from_schema_name_def
    using longer sliced startswith_append [of d "''.'' @ s"] by simp
qed

theorem roundtrip_strip_add_witness:
  "strip ''public'' \<noteq> [] \<and>
   remove_database_from_schema_name (Some ''sales'')
     (add_database_to_schema_name (Some ''sales'') (Some ''public'')) = Inr (Some ''public'')"
proof -
  have nonblank: "strip ''public'' \<noteq> []"
    using not_isspace_p by (simp add: strip_blank)
  show ?thesis
    using nonblank roundtrip_strip_add [OF nonblank, of "''sales''"] by simp
qed

text \<open>
  C2 (the code at the claim's input): with the database \<open>sales\<close> selected, the name
  \<open>salesforce\<close> starts with \<open>sales\<close> and its next character is not a dot; the code
  tests \<open>startswith(self.database)\<close> only, and returns \<open>orce\<close>, not the name
  unchanged.
\<close>

theorem remove_database_without_dot:
  "remove_database_from_schema_name (Some ''sales'') (Some ''salesforce'') =
     Inr (Some ''orce'')"
  by (simp add: remove_database_from_schema_name_def startswith_def)

text \<open>
  C7 (as the claim states it, refuted): with the database \<open>sales\<close> selected, the name
  \<open>sales.sales.x\<close> strips to \<open>sales.x\<close>, and that strips again to \<open>x\<close>.
\<close>

theorem strip_twice_counterexample:
  "remove_database_from_schema_name (Some ''sales'') (Some ''sales.sales.x'') =
     Inr (Some ''sales.x'') \<and>
   remove_database_from_schema_name (Some ''sales'') (Some ''sales.x'') = Inr (Some ''x'') \<and>
   remove_database_from_schema_name (Some ''sales'') (Some ''sales.x'') \<noteq>
     Inr (Some ''sales.x'')"
  by (simp add: remove_database_from_schema_name_def startswith_def)

text \<open>
  C7 (amended): for every selected database \<open>d\<close> and every schema name \<open>s\<close>, when the
  once-stripped name \<open>t\<close> does not start with \<open>d\<close>, or is \<open>d\<close> itself, stripping \<open>t\<close>
  again returns \<open>t\<close>: the second application changes nothing.
\<close>

theorem strip_twice_when_clean:
  assumes "remove_database_from_schema_name (Some d) (Some s) = Inr (Some t)"
    and "\<not> startswith t d \<or> t = d"
  shows "remove_database_from_schema_name (Some d) (Some t) =
           remove_database_from_schema_name (Some d) (Some s)"
proof -
  have "remove_database_from_schema_name (Some d) (Some t) = Inr (Some t)"
    using assms(2) by (auto simp: remove_database_from_schema_name_def)
  then show ?thesis
    using assms(1) by simp
qed

theorem strip_twice_when_clean_witness:
  "remove_database_from_schema_name (Some ''sales'') (Some ''sales.public'') =
     Inr (Some ''public'') \<and>
   \<not> startswith ''public'' ''sales'' \<and>
   remove_database_from_schema_name (Some ''sales'') (Some ''public'') =
     remove_database_from_schema_name (Some ''sales'') (Some ''sales.public'')"
proof -
  have once: "remove_database_from_schema_name (Some ''sales'') (Some ''sales.public'') =
      Inr (Some ''public'')"
    by (simp add: remove_database_from_schema_name_def startswith_def)
  have clean: "\<not> startswith ''public'' ''sales''"
    by (simp add: startswith_def)
  show ?thesis
    using once clean strip_twice_when_clean [OF once] by blast
qed

text \<open>
  C8 (the code at the claim's null input): with a database selected, a \<open>None\<close> schema
  name raises AttributeError; it is not returned unchanged.
\<close>

theorem remove_database_null_raises:
  "remove_database_from_schema_name (Some ''sales'') None =
     Inl (AttributeError ''NoneType object has no attribute startswith'')"
  by (simp add: remove_database_from_schema_name_def)

section \<open>Properties of the connection URL\<close>

lemma get_option_present:
  "map_of root k = Some v \<Longrightarrow> v \<noteq> [] \<Longrightarrow> get_option_or_else root k dflt e = Inr (Str v)"
  by (cases v) (simp_all add: get_option_or_else_def)

lemma get_option_missing:
  "option_missing root k \<Longrightarrow>
   get_option_or_else root k dflt e =
     (if e then Inl (InvalidDremioConnectorException (''Missing connection option: '' @ k))
      else Inr dflt)"
  by (auto simp: get_option_or_else_def option_missing_def split: option.splits list.splits)

lemma get_option_not_missing:
  "\<not> option_missing root k \<Longrightarrow> \<exists>v. get_option_or_else root k dflt e = Inr (Str v)"
  by (auto simp: get_option_or_else_def option_missing_def split: option.splits list.splits)

lemma render_not_handled_map:
  "render_not_handled root ks =
     Inr (map (\<lambda>k. k @ ''='' @
       py_str (if option_missing root k then NoneValue else Str (the (map_of root k)))) ks)"
  by (induction ks)
    (auto simp: get_option_or_else_def option_missing_def split: option.splits list.splits)

lemma set_iteration_remdups: "set_iteration remdups"
  by (simp add: set_iteration_def)

lemma set_iteration_Nil: "set_iteration set_iter \<Longrightarrow> set_iter [] = []"
  unfolding set_iteration_def
  by (metis empty_set set_empty)

text \<open>
  C4: for the option map that holds exactly \<open>username = u\<close>, \<open>password = p\<close> and
  \<open>hostPort = h:1234\<close>, \<open>get_connection_url\<close> returns
  \<open>dremio+flight://u:p@h:1234/?UseEncryption=False&disableCertificateVerification=True\<close>,
  whatever the order in which the dict lists its keys or a set is iterated.
\<close>

theorem get_connection_url_example:
  assumes iter: "set_iteration set_iter"
    and keys: "set (map fst root) = {''username'', ''password'', ''hostPort''}"
    and vals: "map_of root ''username'' = Some ''u''" "map_of root ''password'' = Some ''p''"
      "map_of root ''hostPort'' = Some ''h:1234''"
  shows "get_connection_url set_iter root =
    Inr ''dremio+flight://u:p@h:1234/?UseEncryption=False&disableCertificateVerification=True''"
proof -
  have u: "get_option_or_else root ''username'' NoneValue True = Inr (Str ''u'')"
    using vals(1) by (simp add: get_option_present)
  have p: "get_option_or_else root ''password'' NoneValue True = Inr (Str ''p'')"
    using vals(2) by (simp add: get_option_present)
  have h: "get_option_or_else root ''hostPort'' NoneValue True = Inr (Str ''h:1234'')"
    using vals(3) by (simp add: get_option_present)
  have "''UseEncryption'' \<notin> set (map fst root)"
    unfolding keys by simp
  then have "map_of root ''UseEncryption'' = None"
    by (simp add: map_of_eq_None_iff)
  then have enc: "get_option_or_else root ''UseEncryption'' (Bool False) False = Inr (Bool False)"
    by (simp add: get_option_or_else_def)
  have "''disableCertificateVerification'' \<notin> set (map fst root)"
    unfolding keys by simp
  then have "map_of root ''disableCertificateVerification'' = None"
    by (simp add: map_of_eq_None_iff)
  then have cert: "get_option_or_else root ''disableCertificateVerification'' (Bool True) False
      = Inr (Bool True)"
    by (simp add: get_option_or_else_def)
  have "\<forall>k \<in> set (map fst root). k \<in> set handled_options"
    unfolding keys by (simp add: handled_options_def)
  then have "filter (\<lambda>k. k \<notin> set handled_options) (map fst root) = []"
    by (simp add: filter_empty_conv)
  then have none: "set_iter (filter (\<lambda>k. k \<notin> set handled_options) (map fst root)) = []"
    using iter by (simp add: set_iteration_Nil)
  show ?thesis
    unfolding get_connection_url_def u p h enc cert none by simp
qed

theorem get_connection_url_example_witness:
  "set_iteration remdups \<and>
   get_connection_url remdups
     [(''username'', ''u''), (''password'', ''p''), (''hostPort'', ''h:1234'')] =
    Inr ''dremio+flight://u:p@h:1234/?UseEncryption=False&disableCertificateVerification=True''"
  using set_iteration_remdups
    get_connection_url_example [of remdups
      "[(''username'', ''u''), (''password'', ''p''), (''hostPort'', ''h:1234'')]"]
  by simp


lemma get_connection_url_username_missing:
  "option_missing root ''username'' \<Longrightarrow>
   get_connection_url set_iter root =
     Inl (InvalidDremioConnectorException (''Missing connection option: '' @ ''username''))"
  by (simp add: get_connection_url_def get_option_missing)

lemma get_connection_url_password_missing:
  assumes "\<not> option_missing root ''username''" and "option_missing root ''password''"
  shows "get_connection_url set_iter root =
     Inl (InvalidDremioConnectorException (''Missing connection option: '' @ ''password''))"
proof -
  obtain u where "get_option_or_else root ''username'' NoneValue True = Inr (Str u)"
    using get_option_not_missing [OF assms(1)] by blast
  then show ?thesis
    using assms(2) by (simp add: get_connection_url_def get_option_missing)
qed

lemma get_connection_url_hostPort_missing:
  assumes "\<not> option_missing root ''username''" and "\<not> option_missing root ''password''"
    and "option_missing root ''hostPort''"
  shows "get_connection_url set_iter root =
     Inl (InvalidDremioConnectorException (''Missing connection option: '' @ ''hostPort''))"
proof -
  obtain u where u: "get_option_or_else root ''username'' NoneValue True = Inr (Str u)"
    using get_option_not_missing [OF assms(1)] by blast
  obtain p where p: "get_option_or_else root ''password'' NoneValue True = Inr (Str p)"
    using get_option_not_missing [OF assms(2)] by blast
  show ?thesis
    using assms(3) by (simp add: get_connection_url_def u p get_option_missing)
qed


text \<open>
  C5: when one of the required options \<open>username\<close>, \<open>password\<close>, \<open>hostPort\<close> is
  absent or empty, \<open>get_connection_url\<close> raises InvalidDremioConnectorException and
  returns no URL; the message names the first required option, in the order the source
  reads them, that is missing, and so names \<open>k\<close> itself when \<open>k\<close> is the only one
  missing.
\<close>

theorem missing_required_option_raises:
  assumes "k \<in> set required_options" and "option_missing root k"
  shows "\<exists>k'. find (option_missing root) required_options = Some k' \<and>
           k' \<in> set required_options \<and> option_missing root k' \<and>
           get_connection_url set_iter root =
             Inl (InvalidDremioConnectorException (''Missing connection option: '' @ k')) \<and>
           ((\<forall>j \<in> set required_options. option_missing root j \<longrightarrow> j = k) \<longrightarrow> k' = k)"
proof -
  have first: "\<exists>k'. find (option_missing root) required_options = Some k' \<and>
      k' \<in> set required_options \<and> option_missing root k' \<and>
      get_connection_url set_iter root =
        Inl (InvalidDremioConnectorException (''Missing connection option: '' @ k'))"
  proof (cases "option_missing root ''username''")
    case True
    have "find (option_missing root) required_options = Some ''username''"
      using True by (simp add: required_options_def)
    moreover have "''username'' \<in> set required_options"
      by (simp add: required_options_def)
    ultimately show ?thesis
      using True get_connection_url_username_missing [OF True, of set_iter] by blast
  next
    case no_u: False
    show ?thesis
    proof (cases "option_missing root ''password''")
      case True
      have "find (option_missing root) required_options = Some ''password''"
        using no_u True by (simp add: required_options_def)
      moreover have "''password'' \<in> set required_options"
        by (simp add: required_options_def)
      ultimately show ?thesis
        using True get_connection_url_password_missing [OF no_u True, of set_iter] by blast
    next
      case no_p: False
      have "k = ''username'' \<or> k = ''password'' \<or> k = ''hostPort''"
        using assms(1) by (simp add: required_options_def)
      then have h: "option_missing root ''hostPort''"
        using assms(2) no_u no_p by blast
      have "find (option_missing root) required_options = Some ''hostPort''"
        using no_u no_p h by (simp add: required_options_def)
      moreover have "''hostPort'' \<in> set required_options"
        by (simp add: required_options_def)
      ultimately show ?thesis
        using h get_connection_url_hostPort_missing [OF no_u no_p h, of set_iter] by blast
    qed
  qed
  then obtain k' where k': "find (option_missing root) required_options = Some k'"
      "k' \<in> set required_options" "option_missing root k'"
      "get_connection_url set_iter root =
        Inl (InvalidDremioConnectorException (''Missing connection option: '' @ k'))"
    by blast
  have "(\<forall>j \<in> set required_options. option_missing root j \<longrightarrow> j = k) \<longrightarrow> k' = k"
    using k'(2,3) by blast
  then show ?thesis
    using k' by blast
qed

theorem missing_required_option_raises_witness:
  "''hostPort'' \<in> set required_options \<and>
   option_missing [(''username'', ''u''), (''password'', ''p'')] ''hostPort'' \<and>
   get_connection_url remdups [(''username'', ''u''), (''password'', ''p'')] =
     Inl (InvalidDremioConnectorException ''Missing connection option: hostPort'')"
proof -
  let ?root = "[(''username'', ''u''), (''password'', ''p'')]"
  have k: "''hostPort'' \<in> set required_options"
    by (simp add: required_options_def)
  have m: "option_missing ?root ''hostPort''"
    by (simp add: option_missing_def)
  have only: "\<forall>j \<in> set required_options. option_missing ?root j \<longrightarrow> j = ''hostPort''"
    by (simp add: required_options_def option_missing_def)
  obtain k' where "get_connection_url remdups ?root =
        Inl (InvalidDremioConnectorException (''Missing connection option: '' @ k'))"
      and "(\<forall>j \<in> set required_options. option_missing ?root j \<longrightarrow> j = ''hostPort'') \<longrightarrow>
        k' = ''hostPort''"
    using missing_required_option_raises [OF k m, of remdups] by blast
  then have "get_connection_url remdups ?root =
      Inl (InvalidDremioConnectorException (''Missing connection option: '' @ ''hostPort''))"
    using only by blast
  then show ?thesis
    using k m by simp
qed

lemma get_option_optional: "\<exists>v. get_option_or_else root k dflt False = Inr v"
  using get_option_missing [of root k dflt False] get_option_not_missing [of root k dflt False]
  by (cases "option_missing root k") auto

text \<open>
  C10: when the three required options are present and not empty, and a key \<open>k\<close>
  outside the handled ones has the empty string as its value, \<open>get_connection_url\<close>
  returns a URL, and among the items of its query string, joined by \<open>&\<close> after the two
  recognised ones, stands \<open>k=None\<close>.
\<close>

theorem empty_pass_through_option:
  assumes iter: "set_iteration set_iter"
    and u: "map_of root ''username'' = Some u" "u \<noteq> []"
    and p: "map_of root ''password'' = Some p" "p \<noteq> []"
    and h: "map_of root ''hostPort'' = Some h" "h \<noteq> []"
    and k: "k \<notin> set handled_options" "map_of root k = Some []"
  shows "\<exists>enc cert before after.
          get_connection_url set_iter root =
            Inr (''dremio+flight://'' @ u @ '':'' @ p @ ''@'' @ h @ ''/?'' @
                 join ''&'' ([''UseEncryption='' @ enc, ''disableCertificateVerification='' @ cert]
                   @ before @ [k @ ''=None''] @ after))"
proof -
  let ?r = "\<lambda>k. k @ ''='' @
       py_str (if option_missing root k then NoneValue else Str (the (map_of root k)))"
  let ?ks = "set_iter (filter (\<lambda>k. k \<notin> set handled_options) (map fst root))"
  have gu: "get_option_or_else root ''username'' NoneValue True = Inr (Str u)"
    using u by (simp add: get_option_present)
  have gp: "get_option_or_else root ''password'' NoneValue True = Inr (Str p)"
    using p by (simp add: get_option_present)
  have gh: "get_option_or_else root ''hostPort'' NoneValue True = Inr (Str h)"
    using h by (simp add: get_option_present)
  obtain enc where ge:
    "get_option_or_else root ''UseEncryption'' (Bool False) False = Inr enc"
    using get_option_optional by blast
  obtain cert where gc:
    "get_option_or_else root ''disableCertificateVerification'' (Bool True) False = Inr cert"
    using get_option_optional by blast
  have "k \<in> set (map fst root)"
    using k(2) by (metis map_of_eq_None_iff option.distinct(1) set_map)
  then have "k \<in> set (filter (\<lambda>k. k \<notin> set handled_options) (map fst root))"
    using k(1) by simp
  then have "k \<in> set ?ks"
    using iter by (simp add: set_iteration_def)
  then obtain xs ys where split: "?ks = xs @ k # ys"
    by (meson split_list)
  have rk: "?r k = k @ ''=None''"
    using k(2) by (simp add: option_missing_def)
  have "render_not_handled root ?ks = Inr (map ?r xs @ [k @ ''=None''] @ map ?r ys)"
    unfolding render_not_handled_map split using rk by simp
  then have "get_connection_url set_iter root =
      Inr (''dremio+flight://'' @ u @ '':'' @ p @ ''@'' @ h @ ''/?'' @
           join ''&'' ([''UseEncryption='' @ py_str enc,
             ''disableCertificateVerification='' @ py_str cert]
             @ map ?r xs @ [k @ ''=None''] @ map ?r ys))"
    unfolding get_connection_url_def gu gp gh ge gc by simp
  then show ?thesis
    by blast
qed

theorem empty_pass_through_option_witness:
  "set_iteration remdups \<and>
   ''foo'' \<notin> set handled_options \<and>
   (\<exists>enc cert before after.
      get_connection_url remdups
        [(''username'', ''u''), (''password'', ''p''), (''hostPort'', ''h:1234''), (''foo'', '''')] =
      Inr (''dremio+flight://'' @ ''u'' @ '':'' @ ''p'' @ ''@'' @ ''h:1234'' @ ''/?'' @
           join ''&'' ([''UseEncryption='' @ enc, ''disableCertificateVerification='' @ cert]
             @ before @ [''foo'' @ ''=None''] @ after)))"
proof -
  let ?root =
    "[(''username'', ''u''), (''password'', ''p''), (''hostPort'', ''h:1234''), (''foo'', '''')]"
  have k: "''foo'' \<notin> set handled_options"
    by (simp add: handled_options_def)
  have "\<exists>enc cert before after.
      get_connection_url remdups ?root =
      Inr (''dremio+flight://'' @ ''u'' @ '':'' @ ''p'' @ ''@'' @ ''h:1234'' @ ''/?'' @
           join ''&'' ([''UseEncryption='' @ enc, ''disableCertificateVerification='' @ cert]
             @ before @ [''foo'' @ ''=None''] @ after))"
    by (rule empty_pass_through_option [OF set_iteration_remdups _ _ _ _ _ _ k]) simp_all
  then show ?thesis
    using set_iteration_remdups k by blast
qed

lemma foo_rendered_as_None:
  "get_connection_url remdups
     [(''username'', ''u''), (''password'', ''p''), (''hostPort'', ''h:1234''), (''foo'', '''')] =
   Inr ''dremio+flight://u:p@h:1234/?UseEncryption=False&disableCertificateVerification=True&foo=None''"
  by (simp add: get_connection_url_def get_option_or_else_def handled_options_def)

section \<open>Properties of the discovery\<close>

lemma sql_like_percent: "sql_like s ''%''"
  by (induction s) simp_all

lemma sql_like_dot: "sql_like s ''%.%'' \<longleftrightarrow> CHR ''.'' \<in> set s"
  by (induction s) (auto simp: sql_like_percent)

lemma where_excludes:
  "DREMIO_GET_DATABASES_where n \<Longrightarrow>
   \<not> startswith n ''@'' \<and> \<not> startswith n ''$'' \<and> CHR ''.'' \<notin> set n"
  by (simp add: DREMIO_GET_DATABASES_where_def sql_like_dot)

lemma loop_step_filtered:
  "database_filtered_out fw cfg n \<Longrightarrow>
   get_database_names_loop fw cfg (n # rest) self =
     get_database_names_loop fw cfg rest
       (status_filter (fqn_build fw n) ''Database Filtered Out'' self)"
  by simp

lemma loop_step_failed:
  "\<not> database_filtered_out fw cfg n \<Longrightarrow> get_connection fw n = Inl exc \<Longrightarrow>
   get_database_names_loop fw cfg (n # rest) self =
     get_database_names_loop fw cfg rest
       (logger_warning (''Error trying to process database '' @ n @ '': '' @ exc_str exc)
          (logger_error_traceback exc
             (logger_info (''Ingesting from database: '' @ n) self)))"
  by (simp add: set_inspector_def)

lemma loop_step_switched:
  "\<not> database_filtered_out fw cfg n \<Longrightarrow> get_connection fw n = Inr e \<Longrightarrow>
   get_database_names_loop fw cfg (n # rest) self =
     (n # fst (get_database_names_loop fw cfg rest
        ((logger_info (''Ingesting from database: '' @ n) self)
           \<lparr>engine := Some e, database := Some n, connection_map := [], inspector_map := []\<rparr>)),
      snd (get_database_names_loop fw cfg rest
        ((logger_info (''Ingesting from database: '' @ n) self)
           \<lparr>engine := Some e, database := Some n, connection_map := [], inspector_map := []\<rparr>)))"
  by (simp add: set_inspector_def split: prod.splits)

lemma loop_cases:
  obtains (filtered) "database_filtered_out fw cfg n"
  | (failed) exc where "\<not> database_filtered_out fw cfg n" "get_connection fw n = Inl exc"
  | (switched) e where "\<not> database_filtered_out fw cfg n" "get_connection fw n = Inr e"
  by (cases "get_connection fw n") auto

lemma loop_names:
  "fst (get_database_names_loop fw cfg rows self) =
     filter (\<lambda>n. \<not> database_filtered_out fw cfg n \<and> \<not> isl (get_connection fw n)) rows"
proof (induction rows arbitrary: self)
  case Nil
  show ?case by simp
next
  case (Cons n rest)
  show ?case
  proof (cases rule: loop_cases [of fw cfg n])
    case filtered
    then show ?thesis using Cons by (simp only: loop_step_filtered [OF filtered]) simp
  next
    case (failed exc)
    then show ?thesis using Cons by (simp only: loop_step_failed [OF failed]) simp
  next
    case (switched e)
    then show ?thesis using Cons by (simp only: loop_step_switched [OF switched]) simp
  qed
qed

lemma loop_logger:
  "logger (snd (get_database_names_loop fw cfg rows self)) =
     logger self @
     concat (map (switch_log_records fw)
       (filter (\<lambda>n. \<not> database_filtered_out fw cfg n) rows))"
proof (induction rows arbitrary: self)
  case Nil
  show ?case by simp
next
  case (Cons n rest)
  show ?case
  proof (cases rule: loop_cases [of fw cfg n])
    case filtered
    then show ?thesis
      using Cons by (simp only: loop_step_filtered [OF filtered]) (simp add: status_filter_def)
  next
    case (failed exc)
    then show ?thesis
      using Cons by (simp only: loop_step_failed [OF failed])
        (simp add: switch_log_records_def logger_info_def logger_warning_def
          logger_error_traceback_def)
  next
    case (switched e)
    then show ?thesis
      using Cons by (simp only: loop_step_switched [OF switched])
        (simp add: switch_log_records_def logger_info_def)
  qed
qed

lemma loop_status:
  "status_warnings (snd (get_database_names_loop fw cfg rows self)) = status_warnings self \<and>
   status_failures (snd (get_database_names_loop fw cfg rows self)) = status_failures self \<and>
   status_filtered (snd (get_database_names_loop fw cfg rows self)) =
     status_filtered self @
     map (\<lambda>n. (fqn_build fw n, ''Database Filtered Out''))
       (filter (database_filtered_out fw cfg) rows)"
proof (induction rows arbitrary: self)
  case Nil
  show ?case by simp
next
  case (Cons n rest)
  show ?case
  proof (cases rule: loop_cases [of fw cfg n])
    case filtered
    then show ?thesis
      using Cons by (simp only: loop_step_filtered [OF filtered]) (simp add: status_filter_def)
  next
    case (failed exc)
    then show ?thesis
      using Cons by (simp only: loop_step_failed [OF failed])
        (simp add: logger_info_def logger_warning_def logger_error_traceback_def)
  next
    case (switched e)
    then show ?thesis
      using Cons by (simp only: loop_step_switched [OF switched]) (simp add: logger_info_def)
  qed
qed

lemma get_database_names_loop_eq:
  "get_database_names fw cfg execute self =
     (Generated (fst (get_database_names_loop fw cfg (yielded (execute DREMIO_GET_DATABASES)) self))
        (raised (execute DREMIO_GET_DATABASES)),
      snd (get_database_names_loop fw cfg (yielded (execute DREMIO_GET_DATABASES)) self))"
  by (cases "execute DREMIO_GET_DATABASES")
    (simp add: get_database_names_def get_configured_database_def get_database_names_raw_def
      split: prod.splits)

lemmas example_defs = service_fqn_def excluded_by_name_def always_connects_def
  sales_unreachable_def example_framework_def exclude_hr_def new_connector_def

text \<open>
  C3: whatever the filter pattern, the filter function and \<open>useFqnForFiltering\<close>, no
  name \<open>get_database_names\<close> yields starts with \<open>@\<close> or with \<open>$\<close> or contains a dot,
  when the engine answers \<open>DREMIO_GET_DATABASES\<close> as its \<open>WHERE\<close> clause says. Such
  names never reach the filter either: the candidates reported as filtered are exactly
  the filtered ones among the rows of the query.
\<close>

theorem system_namespaces_never_yielded:
  "(\<forall>n \<in> set (yielded (fst (get_database_names fw cfg (dremio_engine schemata) self))).
      \<not> startswith n ''@'' \<and> \<not> startswith n ''$'' \<and> CHR ''.'' \<notin> set n) \<and>
   status_filtered (snd (get_database_names fw cfg (dremio_engine schemata) self)) =
     status_filtered self @
     map (\<lambda>n. (fqn_build fw n, ''Database Filtered Out''))
       (filter (database_filtered_out fw cfg) (filter DREMIO_GET_DATABASES_where schemata))"
proof -
  have rows: "yielded (dremio_engine schemata DREMIO_GET_DATABASES) =
      filter DREMIO_GET_DATABASES_where schemata"
    by (simp add: dremio_engine_def)
  have "set (yielded (fst (get_database_names fw cfg (dremio_engine schemata) self)))
      \<subseteq> set (filter DREMIO_GET_DATABASES_where schemata)"
    unfolding get_database_names_loop_eq rows loop_names by auto
  then have "\<forall>n \<in> set (yielded (fst (get_database_names fw cfg (dremio_engine schemata) self))).
      DREMIO_GET_DATABASES_where n"
    by auto
  then have names: "\<forall>n \<in> set (yielded (fst (get_database_names fw cfg (dremio_engine schemata) self))).
      \<not> startswith n ''@'' \<and> \<not> startswith n ''$'' \<and> CHR ''.'' \<notin> set n"
    using where_excludes by blast
  have reported: "status_filtered (snd (get_database_names fw cfg (dremio_engine schemata) self)) =
     status_filtered self @
     map (\<lambda>n. (fqn_build fw n, ''Database Filtered Out''))
       (filter (database_filtered_out fw cfg) (filter DREMIO_GET_DATABASES_where schemata))"
    unfolding get_database_names_loop_eq rows
    using loop_status [of fw cfg "filter DREMIO_GET_DATABASES_where schemata" self] by simp
  show ?thesis
    using names reported by blast
qed

lemma example_rows:
  "filter DREMIO_GET_DATABASES_where [''sales'', ''hr'', ''@scratch'', ''$internal'', ''sales.public''] =
     [''sales'', ''hr'']"
  by (simp add: DREMIO_GET_DATABASES_where_def startswith_def sql_like_dot)

lemma example_run:
  "yielded (fst (get_database_names example_framework exclude_hr
      (dremio_engine [''sales'', ''hr'', ''@scratch'', ''$internal'', ''sales.public''])
      new_connector)) = [''sales'']"
  by (simp only: get_database_names_loop_eq fst_conv snd_conv generated.sel loop_names)
    (simp add: dremio_engine_def DREMIO_GET_DATABASES_where_def startswith_def sql_like_dot
      database_filtered_out_def example_defs)

theorem system_namespaces_never_yielded_witness:
  "yielded (fst (get_database_names example_framework exclude_hr
      (dremio_engine [''sales'', ''hr'', ''@scratch'', ''$internal'', ''sales.public''])
      new_connector)) = [''sales''] \<and>
   \<not> startswith ''sales'' ''@'' \<and> \<not> startswith ''sales'' ''$'' \<and> CHR ''.'' \<notin> set ''sales'' \<and>
   status_filtered (snd (get_database_names example_framework exclude_hr
      (dremio_engine [''sales'', ''hr'', ''@scratch'', ''$internal'', ''sales.public''])
      new_connector)) = [(''dremio.hr'', ''Database Filtered Out'')]"
proof -
  let ?run = "get_database_names example_framework exclude_hr
      (dremio_engine [''sales'', ''hr'', ''@scratch'', ''$internal'', ''sales.public''])
      new_connector"
  note inst = system_namespaces_never_yielded [of example_framework exclude_hr
      "[''sales'', ''hr'', ''@scratch'', ''$internal'', ''sales.public'']" new_connector]
  have "''sales'' \<in> set (yielded (fst ?run))"
    by (simp add: example_run)
  then have names: "\<not> startswith ''sales'' ''@'' \<and> \<not> startswith ''sales'' ''$'' \<and>
      CHR ''.'' \<notin> set ''sales''"
    using inst by blast
  have "status_filtered (snd ?run) = [(''dremio.hr'', ''Database Filtered Out'')]"
    using inst
    by (simp add: DREMIO_GET_DATABASES_where_def startswith_def sql_like_dot
        database_filtered_out_def example_defs)
  then show ?thesis
    using names example_run by blast
qed

text \<open>
  C6 (as the claim states it, refuted): the engine lists \<open>sales\<close>, \<open>hr\<close> and
  \<open>marketing\<close>, \<open>hr\<close> is filtered out and the switch to \<open>sales\<close> raises. The run
  yields \<open>marketing\<close> and raises nothing, the logger has the traceback and the
  warning, and the status object has no warning and no failure: the handler calls the
  logger only.
\<close>

theorem failed_switch_status_counterexample:
  "yielded (fst (get_database_names (example_framework\<lparr>get_connection := sales_unreachable\<rparr>)
      exclude_hr (dremio_engine [''sales'', ''hr'', ''marketing'']) new_connector)) =
     [''marketing''] \<and>
   raised (fst (get_database_names (example_framework\<lparr>get_connection := sales_unreachable\<rparr>)
      exclude_hr (dremio_engine [''sales'', ''hr'', ''marketing'']) new_connector)) = None \<and>
   logger (snd (get_database_names (example_framework\<lparr>get_connection := sales_unreachable\<rparr>)
      exclude_hr (dremio_engine [''sales'', ''hr'', ''marketing'']) new_connector)) =
     [LogInfo ''Ingesting from database: sales'',
      LogErrorTraceback (DriverError ''unreachable''),
      LogWarning ''Error trying to process database sales: unreachable'',
      LogInfo ''Ingesting from database: marketing''] \<and>
   status_warnings (snd (get_database_names (example_framework\<lparr>get_connection := sales_unreachable\<rparr>)
      exclude_hr (dremio_engine [''sales'', ''hr'', ''marketing'']) new_connector)) = [] \<and>
   status_failures (snd (get_database_names (example_framework\<lparr>get_connection := sales_unreachable\<rparr>)
      exclude_hr (dremio_engine [''sales'', ''hr'', ''marketing'']) new_connector)) = []"
  by (simp only: get_database_names_loop_eq fst_conv snd_conv generated.sel
        loop_names loop_logger loop_status)
    (simp add: dremio_engine_def DREMIO_GET_DATABASES_where_def startswith_def sql_like_dot
      switch_log_records_def database_filtered_out_def example_defs)

text \<open>
  C6 (amended): when \<open>set_inspector\<close> raises for a candidate that passed the filter,
  \<open>get_database_names\<close> raises nothing of it (it ends as the query's own rows end),
  does not yield that candidate, and goes on: it yields, in order, every candidate that
  passes the filter and whose switch succeeds. The failure is logged, as a traceback at
  error level and a message at warning level naming the candidate; the warnings and
  failures of the status object are left as they were.
\<close>

theorem failed_switch_is_skipped:
  assumes "n \<in> set (yielded (execute DREMIO_GET_DATABASES))"
    and "\<not> database_filtered_out fw cfg n"
    and "get_connection fw n = Inl exc"
  shows "raised (fst (get_database_names fw cfg execute self)) =
           raised (execute DREMIO_GET_DATABASES) \<and>
         n \<notin> set (yielded (fst (get_database_names fw cfg execute self))) \<and>
         yielded (fst (get_database_names fw cfg execute self)) =
           filter (\<lambda>m. \<not> database_filtered_out fw cfg m \<and> \<not> isl (get_connection fw m))
             (yielded (execute DREMIO_GET_DATABASES)) \<and>
         LogErrorTraceback exc \<in> set (logger (snd (get_database_names fw cfg execute self))) \<and>
         LogWarning (''Error trying to process database '' @ n @ '': '' @ exc_str exc)
           \<in> set (logger (snd (get_database_names fw cfg execute self))) \<and>
         status_warnings (snd (get_database_names fw cfg execute self)) = status_warnings self \<and>
         status_failures (snd (get_database_names fw cfg execute self)) = status_failures self"
proof -
  let ?rows = "yielded (execute DREMIO_GET_DATABASES)"
  have r: "raised (fst (get_database_names fw cfg execute self)) =
      raised (execute DREMIO_GET_DATABASES)"
    by (simp add: get_database_names_loop_eq)
  have y: "yielded (fst (get_database_names fw cfg execute self)) =
      filter (\<lambda>m. \<not> database_filtered_out fw cfg m \<and> \<not> isl (get_connection fw m)) ?rows"
    by (simp add: get_database_names_loop_eq loop_names)
  have skipped: "n \<notin> set (yielded (fst (get_database_names fw cfg execute self)))"
    unfolding y using assms(3) by simp
  have "n \<in> set (filter (\<lambda>n. \<not> database_filtered_out fw cfg n) ?rows)"
    using assms(1,2) by simp
  then have "set (switch_log_records fw n) \<subseteq>
      set (logger (snd (get_database_names fw cfg execute self)))"
    by (auto simp: get_database_names_loop_eq loop_logger)
  then have l: "LogErrorTraceback exc \<in> set (logger (snd (get_database_names fw cfg execute self)))"
      "LogWarning (''Error trying to process database '' @ n @ '': '' @ exc_str exc)
        \<in> set (logger (snd (get_database_names fw cfg execute self)))"
    using assms(3) by (auto simp: switch_log_records_def)
  have s: "status_warnings (snd (get_database_names fw cfg execute self)) = status_warnings self"
    "status_failures (snd (get_database_names fw cfg execute self)) = status_failures self"
    by (simp_all add: get_database_names_loop_eq loop_status)
  show ?thesis
    using r y skipped l s by blast
qed

theorem failed_switch_is_skipped_witness:
  "''sales'' \<in> set (yielded (dremio_engine [''sales'', ''hr'', ''marketing''] DREMIO_GET_DATABASES)) \<and>
   \<not> database_filtered_out (example_framework\<lparr>get_connection := sales_unreachable\<rparr>)
       exclude_hr ''sales'' \<and>
   get_connection (example_framework\<lparr>get_connection := sales_unreachable\<rparr>) ''sales'' =
     Inl (DriverError ''unreachable'') \<and>
   raised (fst (get_database_names (example_framework\<lparr>get_connection := sales_unreachable\<rparr>)
      exclude_hr (dremio_engine [''sales'', ''hr'', ''marketing'']) new_connector)) = None \<and>
   ''sales'' \<notin> set (yielded (fst (get_database_names
      (example_framework\<lparr>get_connection := sales_unreachable\<rparr>)
      exclude_hr (dremio_engine [''sales'', ''hr'', ''marketing'']) new_connector))) \<and>
   LogWarning ''Error trying to process database sales: unreachable''
     \<in> set (logger (snd (get_database_names
      (example_framework\<lparr>get_connection := sales_unreachable\<rparr>)
      exclude_hr (dremio_engine [''sales'', ''hr'', ''marketing'']) new_connector)))"
proof -
  let ?fw = "example_framework\<lparr>get_connection := sales_unreachable\<rparr>"
  let ?engine = "dremio_engine [''sales'', ''hr'', ''marketing'']"
  have candidate: "''sales'' \<in> set (yielded (?engine DREMIO_GET_DATABASES))"
    by (simp add: dremio_engine_def DREMIO_GET_DATABASES_where_def startswith_def sql_like_dot)
  have kept: "\<not> database_filtered_out ?fw exclude_hr ''sales''"
    by (simp add: database_filtered_out_def example_defs)
  have fails: "get_connection ?fw ''sales'' = Inl (DriverError ''unreachable'')"
    by (simp add: example_defs)
  have no_raise: "raised (?engine DREMIO_GET_DATABASES) = None"
    by (simp add: dremio_engine_def)
  show ?thesis
    using candidate kept fails no_raise
      failed_switch_is_skipped [where execute = ?engine and fw = ?fw and cfg = exclude_hr
        and n = "''sales''" and exc = "DriverError ''unreachable''" and self = new_connector]
    by simp
qed

lemma remove_database_some:
  "\<exists>t. remove_database_from_schema_name (Some d) (Some s) = Inr (Some t)"
  by (simp add: remove_database_from_schema_name_def)

lemma schema_loop:
  "map Inr (yielded (get_raw_database_schema_names_loop (Some d) rows exc)) =
     map (\<lambda>s. remove_database_from_schema_name (Some d) (Some s)) rows \<and>
   raised (get_raw_database_schema_names_loop (Some d) rows exc) = exc"
proof (induction rows)
  case Nil
  show ?case by simp
next
  case (Cons s rows)
  obtain t where t: "remove_database_from_schema_name (Some d) (Some s) = Inr (Some t)"
    using remove_database_some by blast
  show ?case
    using Cons by (cases "get_raw_database_schema_names_loop (Some d) rows exc") (simp add: t)
qed

text \<open>
  C9: with a database \<open>d\<close> selected, \<open>get_raw_database_schema_names\<close> yields, in order
  and one for one, the result of \<open>_remove_database_from_schema_name\<close> on each row the
  engine returns for \<open>DREMIO_GET_SCHEMAS d\<close>, and ends as the rows end. With \<open>sales\<close>
  selected and the rows \<open>sales.public\<close>, \<open>sales.reporting\<close> it yields \<open>public\<close>,
  \<open>reporting\<close>, as the instance after the theorem computes.
\<close>

theorem raw_schema_names_are_stripped:
  assumes "database self = Some d"
    and "execute (DREMIO_GET_SCHEMAS d) = Generated rows exc"
  shows "map Inr (yielded (get_raw_database_schema_names fw execute self)) =
           map (\<lambda>schema_name. remove_database_from_schema_name (Some d) (Some schema_name)) rows \<and>
         raised (get_raw_database_schema_names fw execute self) = exc"
  using assms schema_loop [of d rows exc]
  by (simp add: get_raw_database_schema_names_def)

theorem raw_schema_names_are_stripped_witness:
  "database (new_connector\<lparr>database := Some ''sales''\<rparr>) = Some ''sales'' \<and>
   dremio_engine [''sales.public'', ''sales.reporting''] (DREMIO_GET_SCHEMAS ''sales'') =
     Generated [''sales.public'', ''sales.reporting''] None \<and>
   yielded (get_raw_database_schema_names example_framework
     (dremio_engine [''sales.public'', ''sales.reporting''])
     (new_connector\<lparr>database := Some ''sales''\<rparr>)) = [Some ''public'', Some ''reporting''] \<and>
   raised (get_raw_database_schema_names example_framework
     (dremio_engine [''sales.public'', ''sales.reporting''])
     (new_connector\<lparr>database := Some ''sales''\<rparr>)) = None"
proof -
  let ?self = "new_connector\<lparr>database := Some ''sales''\<rparr>"
  let ?engine = "dremio_engine [''sales.public'', ''sales.reporting'']"
  have db: "database ?self = Some ''sales''"
    by (simp add: new_connector_def)
  have rows: "?engine (DREMIO_GET_SCHEMAS ''sales'') =
      Generated [''sales.public'', ''sales.reporting''] None"
    by (simp add: dremio_engine_def DREMIO_GET_SCHEMAS_where_def sql_like_percent)
  let ?inr = "Inr :: string option \<Rightarrow> py_error + string option"
  have inst: "map ?inr (yielded (get_raw_database_schema_names example_framework ?engine ?self)) =
      map (\<lambda>schema_name. remove_database_from_schema_name (Some ''sales'') (Some schema_name))
        [''sales.public'', ''sales.reporting''] \<and>
    raised (get_raw_database_schema_names example_framework ?engine ?self) = None"
    by (rule raw_schema_names_are_stripped [where self = ?self and d = "''sales''"
        and execute = ?engine and rows = "[''sales.public'', ''sales.reporting'']"
        and exc = None and fw = example_framework, OF db rows])
  have vals: "map (\<lambda>schema_name.
        remove_database_from_schema_name (Some ''sales'') (Some schema_name))
        [''sales.public'', ''sales.reporting''] =
      map ?inr [Some ''public'', Some ''reporting'']"
    by (simp add: remove_database_from_schema_name_def startswith_def)
  have "map ?inr (yielded (get_raw_database_schema_names example_framework ?engine ?self)) =
      map ?inr [Some ''public'', Some ''reporting'']"
    using inst vals by (simp only:)
  then have "yielded (get_raw_database_schema_names example_framework ?engine ?self) =
      [Some ''public'', Some ''reporting'']"
    by (simp only: inj_map_eq_map [OF inj_Inr])
  then have "yielded (get_raw_database_schema_names example_framework ?engine ?self) =
      [Some ''public'', Some ''reporting''] \<and>
    raised (get_raw_database_schema_names example_framework ?engine ?self) = None"
    using inst by blast
  then show ?thesis
    using db rows by blast
qed

end
